theory Spec2Isabelle
  imports Complex_Main
begin

section \<open>LFPy: the simulation driver with electrodes and the geometry extractor\<close>

text \<open>
  A shallow embedding of \<^verbatim>\<open>src/LFPy/run_simulation.py\<close>: the functions
  \<^verbatim>\<open>_run_simulation\<close>, \<^verbatim>\<open>_run_simulation_with_electrode\<close> and
  \<^verbatim>\<open>_collect_geometry_neuron\<close>.

  Conventions of the embedding.
  \<^item> Python floats and numpy float64 entries are modelled as \<^typ>\<open>real\<close>. The rounding of
    the floating-point operations is represented where a float is truncated to an integer
    (the column counts of the result containers), and nowhere else.
  \<^item> An attribute that an object may lack (\<^verbatim>\<open>hasattr\<close>, \<^verbatim>\<open>del\<close>) is an \<open>option\<close> field.
  \<^item> Objects are modelled by their values; two electrodes of a list are distinct objects.
  \<^item> An exception is a value of type \<open>error\<close> on the left of a sum.
  \<^item> The NEURON engine, the electrode method \<^verbatim>\<open>calc_lfp\<close> and \<^verbatim>\<open>np.interp\<close> are
    collaborators outside this file; they are parameters of the functions that call them.
  \<^item> The progress report inside the time loop (it divides by elapsed wall-clock time and
    only prints) is not represented.
\<close>

subsection \<open>Exceptions\<close>

datatype error =
    AttributeError
  | IndexError
  | KeyError
  | ValueError
  | ZeroDivisionError
  | UnboundLocalError
  | IOError
  | RuntimeError

definition bind :: "error + 'a \<Rightarrow> ('a \<Rightarrow> error + 'b) \<Rightarrow> error + 'b" where
  "bind m f = (case m of Inl e \<Rightarrow> Inl e | Inr x \<Rightarrow> f x)"

subsection \<open>numpy arrays\<close>

type_synonym vec = "real list"

text \<open>A two-dimensional array: its number of columns and its rows. The column count is
  kept beside the rows because an array may have no row at all.\<close>

datatype array2 = Array2 (ncols: nat) (rows: "vec list")

definition nrows :: "array2 \<Rightarrow> nat" where
  "nrows A = length (rows A)"

definition wf_array :: "array2 \<Rightarrow> bool" where
  "wf_array A = list_all (\<lambda>r. length r = ncols A) (rows A)"

text \<open>\<^verbatim>\<open>int(x)\<close> of a float truncates towards zero.\<close>

definition py_int :: "real \<Rightarrow> int" where
  "py_int x = (if 0 \<le> x then \<lfloor>x\<rfloor> else \<lceil>x\<rceil>)"

text \<open>Rounding to the nearest integer, ties to the even one.\<close>

definition rint :: "real \<Rightarrow> int" where
  "rint x =
     (let f = \<lfloor>x\<rfloor>; d = x - of_int f
      in if d < 1 / 2 then f
         else if 1 / 2 < d then f + 1
         else if even f then f else f + 1)"

text \<open>Binary64 floats. For \<open>a \<ge> 1\<close>, \<open>expo_up\<close> finds the exponent \<open>n\<close> with
  \<open>2 ^ n \<le> a < 2 ^ (n + 1)\<close>, at most 1023; for \<open>a < 1\<close>, \<open>expo_down\<close> finds the
  least \<open>n\<close> with \<open>1 / 2 ^ n \<le> a\<close>, at most 1022 (below that the floats are
  subnormal and equally spaced). \<open>ulp a\<close> is the distance between neighbouring floats
  around \<open>a\<close>, and \<open>round_double\<close> rounds a real to the nearest float, ties to the even
  mantissa. Results beyond the largest float (\<^verbatim>\<open>inf\<close>) are not represented.\<close>

fun expo_up :: "nat \<Rightarrow> nat \<Rightarrow> real \<Rightarrow> nat" where
  "expo_up 0 n a = n"
| "expo_up (Suc fuel) n a = (if a < 2 ^ Suc n then n else expo_up fuel (Suc n) a)"

fun expo_down :: "nat \<Rightarrow> nat \<Rightarrow> real \<Rightarrow> nat" where
  "expo_down 0 n a = n"
| "expo_down (Suc fuel) n a = (if 1 / 2 ^ n \<le> a then n else expo_down fuel (Suc n) a)"

definition ulp :: "real \<Rightarrow> real" where
  "ulp a = (if 1 \<le> a then 2 ^ expo_up 1023 0 a / 2 ^ 52
            else 1 / (2 ^ expo_down 1021 1 a * 2 ^ 52))"

definition round_double :: "real \<Rightarrow> real" where
  "round_double x =
     (if x = 0 then 0
      else sgn x * (of_int (rint (\<bar>x\<bar> / ulp \<bar>x\<bar>)) * ulp \<bar>x\<bar>))"

text \<open>The float quotient and the float sum of two floats.\<close>

definition float_div :: "real \<Rightarrow> real \<Rightarrow> real" where
  "float_div a b = round_double (a / b)"

definition float_add :: "real \<Rightarrow> real \<Rightarrow> real" where
  "float_add a b = round_double (a + b)"

text \<open>\<^verbatim>\<open>np.empty((r, c))\<close>: the entries are whatever the allocator returns, here
  \<open>g i k\<close> at row \<open>i\<close> and column \<open>k\<close>; a negative dimension raises.\<close>

definition np_empty2 :: "(nat \<Rightarrow> nat \<Rightarrow> real) \<Rightarrow> nat \<Rightarrow> int \<Rightarrow> error + array2" where
  "np_empty2 g r c =
     (if c < 0 then Inl ValueError
      else Inr (Array2 (nat c) (map (\<lambda>i. map (g i) [0..<nat c]) [0..<r])))"

definition np_empty1 :: "(nat \<Rightarrow> real) \<Rightarrow> nat \<Rightarrow> vec" where
  "np_empty1 g n = map g [0..<n]"

definition np_eye :: "nat \<Rightarrow> array2" where
  "np_eye n = Array2 n (map (\<lambda>i. map (\<lambda>j. if i = j then 1 else 0) [0..<n]) [0..<n])"

definition np_arange :: "nat \<Rightarrow> vec" where
  "np_arange n = map real [0..<n]"

text \<open>\<^verbatim>\<open>np.dot(coeffs, imem)\<close> of a 2-D array and a 1-D array.\<close>

definition np_dot :: "array2 \<Rightarrow> vec \<Rightarrow> error + vec" where
  "np_dot A v =
     (if ncols A = length v
      then Inr (map (\<lambda>r. sum_list (map2 (*) r v)) (rows A))
      else Inl ValueError)"

text \<open>\<^verbatim>\<open>A[:, t] = v\<close>: the index is checked first, then \<open>v\<close> is broadcast to the column.\<close>

definition set_column :: "array2 \<Rightarrow> nat \<Rightarrow> vec \<Rightarrow> error + array2" where
  "set_column A t v =
     (if ncols A \<le> t then Inl IndexError
      else if length v = nrows A
        then Inr (Array2 (ncols A) (map2 (\<lambda>r x. r[t := x]) (rows A) v))
      else if length v = 1
        then Inr (Array2 (ncols A) (map (\<lambda>r. r[t := hd v]) (rows A)))
      else Inl ValueError)"

text \<open>\<^verbatim>\<open>buf *= a\<close> on 1-D arrays: \<open>a\<close> is broadcast to the shape of \<open>buf\<close>.\<close>

definition np_imul :: "vec \<Rightarrow> vec \<Rightarrow> error + vec" where
  "np_imul buf a =
     (if length a = length buf then Inr (map2 (*) buf a)
      else if length a = 1 then Inr (map (\<lambda>x. x * hd a) buf)
      else Inl ValueError)"

text \<open>\<^verbatim>\<open>A += B\<close> on 2-D arrays: \<open>B\<close> is broadcast to the shape of \<open>A\<close>.\<close>

definition np_iadd :: "array2 \<Rightarrow> array2 \<Rightarrow> error + array2" where
  "np_iadd A B =
     (if (nrows B = nrows A \<or> nrows B = 1) \<and> (ncols B = ncols A \<or> ncols B = 1)
      then Inr (Array2 (ncols A)
             (map (\<lambda>i. map (\<lambda>j. rows A ! i ! j
                                + rows B ! (if nrows B = nrows A then i else 0)
                                         ! (if ncols B = ncols A then j else 0))
                         [0..<ncols A])
                  [0..<nrows A]))
      else Inl ValueError)"

subsection \<open>The objects\<close>

text \<open>A segment as the geometry extractor reads it: \<^verbatim>\<open>seg.x\<close>, \<^verbatim>\<open>seg.diam\<close> and
  \<^verbatim>\<open>neuron.h.area(seg.x)\<close>. A section: its 3-D samples \<^verbatim>\<open>(arc3d(i), x3d(i), y3d(i),
  z3d(i))\<close>, \<^verbatim>\<open>nseg\<close>, \<^verbatim>\<open>L\<close> and its segments.\<close>

record segment =
  seg_x :: real
  seg_diam :: real
  seg_area :: real

record nrn_section =
  pt3d :: "(real \<times> real \<times> real \<times> real) list"
  nseg :: nat
  sec_L :: real
  segments :: "segment list"

text \<open>The cell. The attribute \<^verbatim>\<open>length\<close> is the field \<open>seglength\<close>.\<close>

record cell =
  verbose :: bool
  totnsegs :: nat
  timeres_NEURON :: real
  timeres_python :: real
  tstartms :: real
  tstopms :: real
  v_init :: real
  allseclist :: "nrn_section list"
  xstart :: vec
  ystart :: vec
  zstart :: vec
  xend :: vec
  yend :: vec
  zend :: vec
  area :: vec
  diam :: vec
  seglength :: vec
  tvec :: "vec option"
  imem :: "array2 option"
  dotprodresults :: "array2 list option"

record electrode =
  LFP :: "array2 option"
  CellLFP :: "array2 list option"
  perCellLFP :: bool
  electrodecoeff :: "array2 option"

text \<open>An argument that is \<^verbatim>\<open>None\<close>, one object, or a list of objects.\<close>

datatype 'a arg = Absent | Single 'a | Many "'a list"

text \<open>What the interpreter and the allocator provide to one run: whether
  \<^verbatim>\<open>import h5py\<close> succeeds, the content of freshly allocated memory, and which file
  names can be created. \<open>junk_buf i\<close> is entry \<open>i\<close> of the buffer \<^verbatim>\<open>imem\<close>,
  \<open>junk j i k\<close> is the entry at row \<open>i\<close> and column \<open>k\<close> of the \<open>j\<close>-th array kept
  in memory, \<open>junk_file j i k\<close> that of the \<open>j\<close>-th array handed to the container.\<close>

record env =
  h5py_available :: bool
  junk_buf :: "nat \<Rightarrow> real"
  junk :: "nat \<Rightarrow> nat \<Rightarrow> nat \<Rightarrow> real"
  junk_file :: "nat \<Rightarrow> nat \<Rightarrow> nat \<Rightarrow> real"
  can_create :: "string \<Rightarrow> bool"

subsection \<open>The NEURON engine\<close>

text \<open>The part of \<^verbatim>\<open>neuron.h\<close> that the driver reads and writes itself, and the
  solver's own state.\<close>

record 's neuron =
  h_dt :: real
  h_t :: real
  cvode_active :: bool
  cvode_atol :: real
  solver :: 's

text \<open>The primitives of the engine that the driver calls; \<open>i_membrane\<close> lists, section by
  section, the membrane current density of every segment.\<close>

record 's engine =
  finitialize :: "real \<Rightarrow> 's neuron \<Rightarrow> error + 's neuron"
  re_init :: "'s neuron \<Rightarrow> error + 's neuron"
  fcurrent :: "'s neuron \<Rightarrow> error + 's neuron"
  frecord_init :: "'s neuron \<Rightarrow> error + 's neuron"
  loadspikes :: "'s neuron \<Rightarrow> error + 's neuron"
  fadvance :: "'s neuron \<Rightarrow> error + 's neuron"
  i_membrane :: "'s neuron \<Rightarrow> real list list"

subsection \<open>Choosing the integrator\<close>

text \<open>\<^verbatim>\<open>_run_simulation\<close>, lines 24-33: the flag \<^verbatim>\<open>variable_dt\<close> decides.\<close>

definition run_simulation_integrator ::
  "cell \<Rightarrow> bool \<Rightarrow> real \<Rightarrow> 's neuron \<Rightarrow> 's neuron" where
  "run_simulation_integrator c variable_dt atol h =
     (let h1 = h\<lparr>h_dt := timeres_NEURON c\<rparr>
      in if variable_dt then h1\<lparr>cvode_active := True, cvode_atol := atol\<rparr>
         else h1\<lparr>cvode_active := False\<rparr>)"

text \<open>\<^verbatim>\<open>_run_simulation_with_electrode\<close>, lines 155-165: the step size decides; the
  parameter \<^verbatim>\<open>variable_dt\<close> is not read.\<close>

definition with_electrode_integrator ::
  "cell \<Rightarrow> bool \<Rightarrow> real \<Rightarrow> 's neuron \<Rightarrow> 's neuron" where
  "with_electrode_integrator c variable_dt atol h =
     (let h1 = h\<lparr>h_dt := timeres_NEURON c\<rparr>
      in if timeres_NEURON c \<le> 1 / 10 ^ 8
         then h1\<lparr>cvode_active := True, cvode_atol := atol\<rparr>
         else h1\<lparr>cvode_active := False\<rparr>)"

subsection \<open>Importing the storage backend\<close>

text \<open>Lines 79-84: returns \<^verbatim>\<open>to_file\<close>, \<^verbatim>\<open>file_name\<close> and what was printed.\<close>

definition import_h5py ::
  "env \<Rightarrow> bool \<Rightarrow> string option \<Rightarrow> bool \<times> string option \<times> string list" where
  "import_h5py ev to_file file_name =
     (if h5py_available ev then (to_file, file_name, [])
      else (False, None, [''h5py not found, LFP to file not possible'']))"

subsection \<open>Probing the electrodes for their coefficient matrices\<close>

text \<open>The local variables that live across the iterations of the probe loop (lines
  120-142). \<open>LFPcopy\<close> and \<open>CellLFP_saved\<close> (the local \<^verbatim>\<open>CellLFP\<close>) are \<open>None\<close> while
  the name is unbound.\<close>

record probe_locals =
  LFPcopy :: "array2 option"
  CellLFP_saved :: "array2 list option"
  restoreLFP :: bool
  restoreCellLFP :: bool

definition probe_locals0 :: probe_locals where
  "probe_locals0 =
     \<lparr>LFPcopy = None, CellLFP_saved = None, restoreLFP = False, restoreCellLFP = False\<rparr>"

text \<open>One iteration of the loop of lines 123-142, for the electrode \<open>el\<close>: the new
  locals, the electrode afterwards, and the matrix appended to \<^verbatim>\<open>dotprodcoeffs\<close>.\<close>

definition probe_electrode ::
  "(cell \<Rightarrow> 'z electrode_scheme \<Rightarrow> error + 'z electrode_scheme) \<Rightarrow> cell \<Rightarrow> probe_locals \<Rightarrow>
   'z electrode_scheme \<Rightarrow> error + (probe_locals \<times> 'z electrode_scheme \<times> array2)" where
  "probe_electrode calc_lfp c lv el =
     (let (lv1, el1) =
            (case LFP el of
               Some a \<Rightarrow> (lv\<lparr>LFPcopy := Some a, restoreLFP := True\<rparr>, el\<lparr>LFP := None\<rparr>)
             | None \<Rightarrow> (lv, el));
          lv2 =
            (case CellLFP el1 of
               Some l \<Rightarrow> lv1\<lparr>CellLFP_saved := Some l, restoreCellLFP := True\<rparr>
             | None \<Rightarrow> lv1)
      in bind (calc_lfp c el1) (\<lambda>el2.
         case LFP el2 of
           None \<Rightarrow> Inl AttributeError
         | Some coeffs \<Rightarrow>
             bind (if restoreLFP lv2
                   then (case LFPcopy lv2 of
                           None \<Rightarrow> Inl UnboundLocalError
                         | Some a \<Rightarrow> Inr (el2\<lparr>LFP := Some a\<rparr>))
                   else Inr (el2\<lparr>LFP := None\<rparr>)) (\<lambda>el3.
             bind (if restoreCellLFP lv2
                   then (case CellLFP_saved lv2 of
                           None \<Rightarrow> Inl UnboundLocalError
                         | Some l \<Rightarrow> Inr (el3\<lparr>CellLFP := Some l\<rparr>))
                   else Inr (if CellLFP el3 \<noteq> None then el3\<lparr>CellLFP := None\<rparr> else el3)) (\<lambda>el4.
             Inr (lv2, el4, coeffs)))))"

fun probe_loop ::
  "(cell \<Rightarrow> 'z electrode_scheme \<Rightarrow> error + 'z electrode_scheme) \<Rightarrow> cell \<Rightarrow> probe_locals \<Rightarrow>
   'z electrode_scheme list \<Rightarrow> error + ('z electrode_scheme list \<times> array2 list)" where
  "probe_loop calc_lfp c lv [] = Inr ([], [])"
| "probe_loop calc_lfp c lv (el # els) =
     (case probe_electrode calc_lfp c lv el of
        Inl e \<Rightarrow> Inl e
      | Inr (lv', el', coeffs) \<Rightarrow>
          (case probe_loop calc_lfp c lv' els of
             Inl e \<Rightarrow> Inl e
           | Inr (els', cs) \<Rightarrow> Inr (el' # els', coeffs # cs)))"

text \<open>Lines 92-101: \<^verbatim>\<open>dotprodcoeffs\<close> as a list.\<close>

definition dotprodcoeffs_list :: "array2 arg \<Rightarrow> array2 list" where
  "dotprodcoeffs_list d = (case d of Absent \<Rightarrow> [] | Single a \<Rightarrow> [a] | Many l \<Rightarrow> l)"

text \<open>Lines 104-151: the cell afterwards, the list \<^verbatim>\<open>electrodes\<close> (or \<^verbatim>\<open>None\<close>) and
  the extended \<^verbatim>\<open>dotprodcoeffs\<close>. The local \<^verbatim>\<open>cellImem\<close> is bound only if the cell
  had an \<^verbatim>\<open>imem\<close>; assigning the unbound name raises, which the handler turns into
  \<^verbatim>\<open>del cell.imem\<close>.\<close>

definition probe_phase ::
  "(cell \<Rightarrow> 'z electrode_scheme \<Rightarrow> error + 'z electrode_scheme) \<Rightarrow> cell \<Rightarrow>
   'z electrode_scheme arg \<Rightarrow> array2 list \<Rightarrow>
   error + (cell \<times> 'z electrode_scheme list option \<times> array2 list)" where
  "probe_phase calc_lfp c electrode dotprodcoeffs =
     (case electrode of
        Absent \<Rightarrow> Inr (c, None, dotprodcoeffs)
      | _ \<Rightarrow>
        (let electrodes = (case electrode of Many l \<Rightarrow> l | Single e \<Rightarrow> [e] | Absent \<Rightarrow> [])
         in case tvec c of
              None \<Rightarrow> Inl AttributeError
            | Some cellTvec \<Rightarrow>
               (let cellImem = imem c;
                    c1 = c\<lparr>imem := Some (np_eye (totnsegs c))\<rparr>;
                    c2 = c1\<lparr>tvec := Some (map (\<lambda>x. x * timeres_python c1)
                                             (np_arange (totnsegs c1)))\<rparr>
                in case probe_loop calc_lfp c2 probe_locals0 electrodes of
                     Inl e \<Rightarrow> Inl e
                   | Inr (els', cs) \<Rightarrow>
                      (let c3 = c2\<lparr>tvec := Some cellTvec\<rparr>;
                           c4 = (case cellImem of
                                   Some a \<Rightarrow> c3\<lparr>imem := Some a\<rparr>
                                 | None \<Rightarrow> c3\<lparr>imem := None\<rparr>)
                       in Inr (c4, Some els', dotprodcoeffs @ cs)))))"

subsection \<open>Initialising the engine\<close>

text \<open>Lines 155-181.\<close>

definition initialize ::
  "'s engine \<Rightarrow> cell \<Rightarrow> bool \<Rightarrow> real \<Rightarrow> 's neuron \<Rightarrow> error + 's neuron" where
  "initialize eng c variable_dt atol h =
     bind (finitialize eng (v_init c) (with_electrode_integrator c variable_dt atol h)) (\<lambda>h2.
     bind (if cvode_active h2 then re_init eng h2 else fcurrent eng h2) (\<lambda>h3.
     bind (frecord_init eng h3) (\<lambda>h4.
     loadspikes eng (h4\<lparr>h_t := tstartms c\<rparr>))))"

text \<open>Lines 188-191: the reporting interval; dividing by a zero step raises.\<close>

definition interval :: "cell \<Rightarrow> error + real" where
  "interval c =
     (if timeres_NEURON c = 0 then Inl ZeroDivisionError
      else if tstopms c > 10000 then Inr (1 / timeres_NEURON c * 1000)
      else Inr (1 / timeres_NEURON c * 100))"

subsection \<open>Allocating the result containers\<close>

text \<open>Lines 196-200: one array per coefficient matrix, the first of them being the
  \<open>j\<close>-th allocation. The quotient is a float quotient; the \<open>+ 1\<close> is added to the
  integer.\<close>

fun alloc_memory ::
  "(nat \<Rightarrow> nat \<Rightarrow> nat \<Rightarrow> real) \<Rightarrow> cell \<Rightarrow> nat \<Rightarrow> array2 list \<Rightarrow> error + array2 list" where
  "alloc_memory g c j [] = Inr []"
| "alloc_memory g c j (coeffs # rest) =
     (case np_empty2 (g j) (nrows coeffs)
             (py_int (float_div (tstopms c) (timeres_NEURON c)) + 1) of
        Inl e \<Rightarrow> Inl e
      | Inr a \<Rightarrow>
          (case alloc_memory g c (Suc j) rest of
             Inl e \<Rightarrow> Inl e
           | Inr as \<Rightarrow> Inr (a # as)))"

text \<open>The output container. The dataset \<^verbatim>\<open>'electrode{:03d}'.format(i)\<close> is identified by
  its number \<open>i\<close> (the format is injective).\<close>

record h5file =
  fname :: string
  datasets :: "nat \<rightharpoonup> array2"
  is_open :: bool

text \<open>Lines 207-211. Here the \<open>1\<close> is added to the float quotient, by a float
  addition, before the truncation.\<close>

fun alloc_file ::
  "(nat \<Rightarrow> nat \<Rightarrow> nat \<Rightarrow> real) \<Rightarrow> cell \<Rightarrow> nat \<Rightarrow> array2 list \<Rightarrow> (nat \<rightharpoonup> array2) \<Rightarrow>
   error + (nat \<rightharpoonup> array2)" where
  "alloc_file g c i [] ds = Inr ds"
| "alloc_file g c i (coeffs # rest) ds =
     (case np_empty2 (g i) (nrows coeffs)
             (py_int (float_add (float_div (tstopms c) (timeres_NEURON c)) 1)) of
        Inl e \<Rightarrow> Inl e
      | Inr a \<Rightarrow> alloc_file g c (Suc i) rest (ds(i \<mapsto> a)))"

text \<open>\<^verbatim>\<open>file_name.split('.')[-1]\<close>.\<close>

definition split_last :: "string \<Rightarrow> string" where
  "split_last s = rev (takeWhile (\<lambda>ch. ch \<noteq> CHR ''.'') (rev s))"

text \<open>Lines 202-211.\<close>

definition open_file ::
  "env \<Rightarrow> cell \<Rightarrow> string option \<Rightarrow> array2 list \<Rightarrow> error + h5file" where
  "open_file ev c file_name dotprodcoeffs =
     (case file_name of
        None \<Rightarrow> Inl AttributeError
      | Some fn \<Rightarrow>
         (let fn1 = (if split_last fn \<noteq> ''h5'' then fn @ ''.h5'' else fn)
          in if \<not> can_create ev fn1 then Inl IOError
             else bind (alloc_file (junk_file ev) c 0 dotprodcoeffs Map.empty) (\<lambda>ds.
                  Inr \<lparr>fname = fn1, datasets = ds, is_open = True\<rparr>)))"

subsection \<open>Sampling the membrane currents\<close>

text \<open>Lines 219-223: \<^verbatim>\<open>imem[i] = seg.i_membrane\<close> for the segments in iteration order,
  \<open>i\<close> counting from the given start; an index beyond the buffer raises.\<close>

fun store_from :: "nat \<Rightarrow> real list \<Rightarrow> vec \<Rightarrow> error + vec" where
  "store_from i [] buf = Inr buf"
| "store_from i (v # vs) buf =
     (if i < length buf then store_from (Suc i) vs (buf[i := v]) else Inl IndexError)"

text \<open>Line 215: \<^verbatim>\<open>area = cell.area * 1E-2\<close>.\<close>

definition scaled_area :: "cell \<Rightarrow> vec" where
  "scaled_area c = map (\<lambda>a. a * (1 / 100)) (area c)"

text \<open>Lines 219-225: the buffer after reading the currents and \<^verbatim>\<open>imem *= area\<close>.\<close>

definition sample_imem :: "'s engine \<Rightarrow> 's neuron \<Rightarrow> vec \<Rightarrow> vec \<Rightarrow> error + vec" where
  "sample_imem eng h area_s buf =
     bind (store_from 0 (concat (i_membrane eng h)) buf) (\<lambda>b. np_imul b area_s)"

subsection \<open>Depositing one column per coefficient matrix\<close>

text \<open>Lines 228-229. The arrays written so far stay written when a later one raises, so
  the result is the list of arrays together with the exception, if any.\<close>

fun deposit_memory ::
  "nat \<Rightarrow> array2 list \<Rightarrow> vec \<Rightarrow> nat \<Rightarrow> array2 list \<Rightarrow> array2 list \<times> error option" where
  "deposit_memory j [] im ts lfps = (lfps, None)"
| "deposit_memory j (coeffs # rest) im ts lfps =
     (case np_dot coeffs im of
        Inl e \<Rightarrow> (lfps, Some e)
      | Inr v \<Rightarrow>
          if j < length lfps
          then (case set_column (lfps ! j) ts v of
                  Inl e \<Rightarrow> (lfps, Some e)
                | Inr a \<Rightarrow> deposit_memory (Suc j) rest im ts (lfps[j := a]))
          else (lfps, Some IndexError))"

text \<open>Lines 232-234, on the datasets of the container.\<close>

fun deposit_file ::
  "nat \<Rightarrow> array2 list \<Rightarrow> vec \<Rightarrow> nat \<Rightarrow> (nat \<rightharpoonup> array2) \<Rightarrow> (nat \<rightharpoonup> array2) \<times> error option" where
  "deposit_file j [] im ts ds = (ds, None)"
| "deposit_file j (coeffs # rest) im ts ds =
     (case np_dot coeffs im of
        Inl e \<Rightarrow> (ds, Some e)
      | Inr v \<Rightarrow>
          (case ds j of
             None \<Rightarrow> (ds, Some KeyError)
           | Some A \<Rightarrow>
              (case set_column A ts v of
                 Inl e \<Rightarrow> (ds, Some e)
               | Inr a \<Rightarrow> deposit_file (Suc j) rest im ts (ds(j \<mapsto> a)))))"

subsection \<open>The time loop\<close>

text \<open>The variables of the loop: the engine, the buffer \<^verbatim>\<open>imem\<close>, \<^verbatim>\<open>tstep\<close>, the list
  \<^verbatim>\<open>electrodesLFP\<close> (unused unless \<^verbatim>\<open>to_memory\<close>) and the container
  \<^verbatim>\<open>el_LFP_file\<close> (\<open>None\<close> unless \<^verbatim>\<open>to_file\<close>).\<close>

record 's loop_state =
  hoc :: "'s neuron"
  imem_buf :: vec
  tstep :: nat
  electrodesLFP :: "array2 list"
  el_LFP_file :: "h5file option"

text \<open>Lines 219-234 and 249-263: sample, then write to memory, then to the file.\<close>

definition sample_and_deposit ::
  "'s engine \<Rightarrow> bool \<Rightarrow> bool \<Rightarrow> array2 list \<Rightarrow> vec \<Rightarrow> 's loop_state \<Rightarrow>
   's loop_state \<times> error option" where
  "sample_and_deposit eng to_memory to_file dotprodcoeffs area_s st =
     (case sample_imem eng (hoc st) area_s (imem_buf st) of
        Inl e \<Rightarrow> (st, Some e)
      | Inr im \<Rightarrow>
         (let st1 = st\<lparr>imem_buf := im\<rparr>;
              (lfps, err1) =
                 (if to_memory
                  then deposit_memory 0 dotprodcoeffs im (tstep st1) (electrodesLFP st1)
                  else (electrodesLFP st1, None));
              st2 = st1\<lparr>electrodesLFP := lfps\<rparr>
          in case err1 of
               Some e \<Rightarrow> (st2, Some e)
             | None \<Rightarrow>
                if to_file
                then (case el_LFP_file st2 of
                        None \<Rightarrow> (st2, Some UnboundLocalError)
                      | Some f \<Rightarrow>
                         (let (ds, err2) =
                                deposit_file 0 dotprodcoeffs im (tstep st2) (datasets f)
                          in (st2\<lparr>el_LFP_file := Some (f\<lparr>datasets := ds\<rparr>)\<rparr>, err2)))
                else (st2, None)))"

text \<open>Lines 218-237: one iteration of the loop; any exception leaves the function.\<close>

definition loop_body ::
  "'s engine \<Rightarrow> bool \<Rightarrow> bool \<Rightarrow> array2 list \<Rightarrow> vec \<Rightarrow> 's loop_state \<Rightarrow>
   error + 's loop_state" where
  "loop_body eng to_memory to_file dotprodcoeffs area_s st =
     bind (if 0 \<le> h_t (hoc st)
           then (case sample_and_deposit eng to_memory to_file dotprodcoeffs area_s st of
                   (st1, Some e) \<Rightarrow> Inl e
                 | (st1, None) \<Rightarrow> Inr (st1\<lparr>tstep := tstep st1 + 1\<rparr>))
           else Inr st) (\<lambda>st2.
     bind (fadvance eng (hoc st2)) (\<lambda>h'. Inr (st2\<lparr>hoc := h'\<rparr>)))"

text \<open>Line 217: \<^verbatim>\<open>while neuron.h.t < cell.tstopms\<close>. The engine decides how far a step
  advances the time, so the loop is given a bound on its iterations; \<open>None\<close> means the
  bound was reached with the condition still true.\<close>

fun run_loop ::
  "nat \<Rightarrow> 's engine \<Rightarrow> cell \<Rightarrow> bool \<Rightarrow> bool \<Rightarrow> array2 list \<Rightarrow> vec \<Rightarrow> 's loop_state \<Rightarrow>
   (error + 's loop_state) option" where
  "run_loop 0 eng c to_memory to_file dotprodcoeffs area_s st =
     (if h_t (hoc st) < tstopms c then None else Some (Inr st))"
| "run_loop (Suc n) eng c to_memory to_file dotprodcoeffs area_s st =
     (if h_t (hoc st) < tstopms c
      then (case loop_body eng to_memory to_file dotprodcoeffs area_s st of
              Inl e \<Rightarrow> Some (Inl e)
            | Inr st' \<Rightarrow> run_loop n eng c to_memory to_file dotprodcoeffs area_s st')
      else Some (Inr st))"


text \<open>Lines 247-266: the step after the last \<^verbatim>\<open>fadvance\<close>, inside
  \<^verbatim>\<open>try: ... except: pass\<close>.\<close>

definition final_step ::
  "'s engine \<Rightarrow> bool \<Rightarrow> bool \<Rightarrow> array2 list \<Rightarrow> vec \<Rightarrow> 's loop_state \<Rightarrow> 's loop_state" where
  "final_step eng to_memory to_file dotprodcoeffs area_s st =
     fst (sample_and_deposit eng to_memory to_file dotprodcoeffs area_s st)"

subsection \<open>Handing the results over\<close>

text \<open>Lines 276-286 for one index \<open>j\<close> with \<^verbatim>\<open>not j < lendotrodcoeffs0\<close>; \<open>k\<close> is
  \<^verbatim>\<open>lendotrodcoeffs0\<close>. The test for an existing \<^verbatim>\<open>CellLFP\<close> reads
  \<^verbatim>\<open>electrodes[j]\<close>, every other access reads \<^verbatim>\<open>electrodes[j-lendotrodcoeffs0]\<close>.\<close>

definition merge_electrode ::
  "nat \<Rightarrow> nat \<Rightarrow> array2 \<Rightarrow> array2 list \<Rightarrow> 'z electrode_scheme list \<Rightarrow>
   error + 'z electrode_scheme list" where
  "merge_electrode k j LFPj dotprodcoeffs els =
     (if length els \<le> j - k then Inl IndexError
      else
        bind (case LFP (els ! (j - k)) of
                Some old \<Rightarrow> np_iadd old LFPj
              | None \<Rightarrow> Inr LFPj) (\<lambda>new.
        let els1 = els[j - k := (els ! (j - k))\<lparr>LFP := Some new\<rparr>]
        in bind (if perCellLFP (els1 ! (j - k))
                 then (if length els1 \<le> j then Inl IndexError
                       else
                         (let els2 = (if CellLFP (els1 ! j) = None
                                      then els1[j - k := (els1 ! (j - k))\<lparr>CellLFP := Some []\<rparr>]
                                      else els1)
                          in case CellLFP (els2 ! (j - k)) of
                               None \<Rightarrow> Inl AttributeError
                             | Some l \<Rightarrow>
                                 Inr (els2[j - k :=
                                        (els2 ! (j - k))\<lparr>CellLFP := Some (l @ [LFPj])\<rparr>])))
                 else Inr els1) (\<lambda>els3.
           if length dotprodcoeffs \<le> j then Inl IndexError
           else Inr (els3[j - k :=
                       (els3 ! (j - k))\<lparr>electrodecoeff := Some (dotprodcoeffs ! j)\<rparr>]))))"

text \<open>Lines 275-286: \<^verbatim>\<open>for j, LFP in enumerate(electrodesLFP)\<close>, from index \<open>j\<close> on.\<close>

fun merge_loop ::
  "nat \<Rightarrow> nat \<Rightarrow> array2 list \<Rightarrow> array2 list \<Rightarrow> 'z electrode_scheme list \<Rightarrow>
   error + 'z electrode_scheme list" where
  "merge_loop k j [] dotprodcoeffs els = Inr els"
| "merge_loop k j (LFPj # rest) dotprodcoeffs els =
     (if j < k then merge_loop k (Suc j) rest dotprodcoeffs els
      else (case merge_electrode k j LFPj dotprodcoeffs els of
              Inl e \<Rightarrow> Inl e
            | Inr els' \<Rightarrow> merge_loop k (Suc j) rest dotprodcoeffs els'))"

text \<open>Lines 270-286.\<close>

definition finalize ::
  "bool \<Rightarrow> nat \<Rightarrow> array2 list \<Rightarrow> array2 list \<Rightarrow> cell \<Rightarrow> 'z electrode_scheme list option \<Rightarrow>
   error + (cell \<times> 'z electrode_scheme list option)" where
  "finalize to_memory k lfps dotprodcoeffs c electrodes =
     (if to_memory
      then (let c1 = c\<lparr>dotprodresults := Some (take k lfps)\<rparr>
            in case electrodes of
                 None \<Rightarrow> Inr (c1, None)
               | Some els \<Rightarrow>
                   bind (merge_loop k 0 lfps dotprodcoeffs els) (\<lambda>els'. Inr (c1, Some els')))
      else Inr (c, electrodes))"

subsection \<open>The whole run\<close>

text \<open>What the caller can observe after a run that returns: the cell, the electrodes,
  the container, the engine, and what was printed before the loop.\<close>

record ('s, 'z) outcome =
  out_cell :: cell
  out_electrodes :: "'z electrode_scheme list option"
  out_file :: "h5file option"
  out_neuron :: "'s neuron"
  out_messages :: "string list"

text \<open>Lines 86-215, with \<^verbatim>\<open>to_file\<close> and \<^verbatim>\<open>file_name\<close> as they are after the import:
  the cell after the probe, the electrodes, all coefficient matrices, and the variables
  of the loop before its first iteration.\<close>

definition prepare ::
  "env \<Rightarrow> 's engine \<Rightarrow> (cell \<Rightarrow> 'z electrode_scheme \<Rightarrow> error + 'z electrode_scheme) \<Rightarrow>
   's neuron \<Rightarrow> cell \<Rightarrow> 'z electrode_scheme arg \<Rightarrow> bool \<Rightarrow> real \<Rightarrow> bool \<Rightarrow> bool \<Rightarrow>
   string option \<Rightarrow> array2 arg \<Rightarrow>
   error + (cell \<times> 'z electrode_scheme list option \<times> array2 list \<times> 's loop_state)" where
  "prepare ev eng calc_lfp h c electrode variable_dt atol to_memory to_file file_name
           dotprodcoeffs =
     bind (probe_phase calc_lfp c electrode (dotprodcoeffs_list dotprodcoeffs))
       (\<lambda>(c1, electrodes, dpc).
     bind (initialize eng c1 variable_dt atol h) (\<lambda>h1.
     bind (interval c1) (\<lambda>iv.
     bind (if to_memory then alloc_memory (junk ev) c1 0 dpc else Inr []) (\<lambda>lfps.
     bind (if to_file then bind (open_file ev c1 file_name dpc) (\<lambda>f. Inr (Some f))
           else Inr None) (\<lambda>file.
     Inr (c1, electrodes, dpc,
          \<lparr>hoc = h1, imem_buf = np_empty1 (junk_buf ev) (totnsegs c1), tstep = 0,
           electrodesLFP = lfps, el_LFP_file = file\<rparr>))))))"

text \<open>Lines 247-289: the final step, the hand-over and closing the container.\<close>

definition finish ::
  "'s engine \<Rightarrow> bool \<Rightarrow> bool \<Rightarrow> nat \<Rightarrow> string list \<Rightarrow> cell \<Rightarrow>
   'z electrode_scheme list option \<Rightarrow> array2 list \<Rightarrow> 's loop_state \<Rightarrow>
   error + ('s, 'z) outcome" where
  "finish eng to_memory to_file k msgs c electrodes dpc st =
     (let st1 = final_step eng to_memory to_file dpc (scaled_area c) st
      in bind (finalize to_memory k (electrodesLFP st1) dpc c electrodes) (\<lambda>(c1, els).
         Inr \<lparr>out_cell = c1, out_electrodes = els,
              out_file = (if to_file
                          then map_option (\<lambda>f. f\<lparr>is_open := False\<rparr>) (el_LFP_file st1)
                          else el_LFP_file st1),
              out_neuron = hoc st1, out_messages = msgs\<rparr>))"

text \<open>\<^verbatim>\<open>_run_simulation_with_electrode\<close>. \<open>None\<close>: the loop did not end within \<open>fuel\<close>
  iterations; \<open>Some (Inl e)\<close>: the exception \<open>e\<close> reached the caller.\<close>

definition run_simulation_with_electrode ::
  "env \<Rightarrow> 's engine \<Rightarrow> (cell \<Rightarrow> 'z electrode_scheme \<Rightarrow> error + 'z electrode_scheme) \<Rightarrow>
   nat \<Rightarrow> 's neuron \<Rightarrow> cell \<Rightarrow> 'z electrode_scheme arg \<Rightarrow> bool \<Rightarrow> real \<Rightarrow> bool \<Rightarrow> bool \<Rightarrow>
   string option \<Rightarrow> array2 arg \<Rightarrow> (error + ('s, 'z) outcome) option" where
  "run_simulation_with_electrode ev eng calc_lfp fuel h c electrode variable_dt atol
           to_memory to_file file_name dotprodcoeffs =
     (let (to_file1, file_name1, warn) = import_h5py ev to_file file_name;
          msgs = warn @ (if verbose c then [''precalculating geometry - LFP mapping'']
                         else []);
          k = length (dotprodcoeffs_list dotprodcoeffs)
      in case prepare ev eng calc_lfp h c electrode variable_dt atol to_memory to_file1
                file_name1 dotprodcoeffs of
           Inl e \<Rightarrow> Some (Inl e)
         | Inr (c1, electrodes, dpc, st0) \<Rightarrow>
            (case run_loop fuel eng c1 to_memory to_file1 dpc (scaled_area c1) st0 of
               None \<Rightarrow> None
             | Some (Inl e) \<Rightarrow> Some (Inl e)
             | Some (Inr st1) \<Rightarrow>
                 Some (finish eng to_memory to_file1 k msgs c1 electrodes dpc st1)))"

subsection \<open>The geometry extractor\<close>

text \<open>\<^verbatim>\<open>.round(decimals=6)\<close>: scale, round half to even, scale back.\<close>

definition round6 :: "real \<Rightarrow> real" where
  "round6 x = of_int (rint (x * 10 ^ 6)) / 10 ^ 6"

text \<open>\<^verbatim>\<open>v[a:b] = w\<close> on 1-D arrays with \<open>a \<le> b\<close>: the slice is clipped to the array and
  \<open>w\<close> is broadcast to it.\<close>

definition set_slice :: "vec \<Rightarrow> nat \<Rightarrow> nat \<Rightarrow> vec \<Rightarrow> error + vec" where
  "set_slice v a b w =
     (let lo = min a (length v); hi = max lo (min b (length v))
      in if length w = hi - lo then Inr (take lo v @ w @ drop hi v)
         else if length w = 1 then Inr (take lo v @ replicate (hi - lo) (hd w) @ drop hi v)
         else Inl ValueError)"

text \<open>The arrays and the counter of \<^verbatim>\<open>_collect_geometry_neuron\<close> (lines 297-308).\<close>

record geometry =
  counter :: nat
  areavec :: vec
  diamvec :: vec
  lengthvec :: vec
  xstartvec :: vec
  xendvec :: vec
  ystartvec :: vec
  yendvec :: vec
  zstartvec :: vec
  zendvec :: vec

text \<open>Lines 350-355.\<close>

fun fill_segments :: "nrn_section \<Rightarrow> segment list \<Rightarrow> geometry \<Rightarrow> error + geometry" where
  "fill_segments sec [] g = Inr g"
| "fill_segments sec (sg # rest) g =
     (if counter g < length (areavec g) \<and> counter g < length (diamvec g)
         \<and> counter g < length (lengthvec g)
      then fill_segments sec rest
             (g\<lparr>areavec := (areavec g)[counter g := seg_area sg],
                diamvec := (diamvec g)[counter g := seg_diam sg],
                lengthvec := (lengthvec g)[counter g := sec_L sec / real (nseg sec)],
                counter := counter g + 1\<rparr>)
      else Inl IndexError)"

text \<open>Lines 312-355, the body of the loop over the sections. \<open>interp\<close> is \<^verbatim>\<open>np.interp\<close>.
  A section without 3-D samples fails the test of line 315 and the body does nothing
  more. Where \<^verbatim>\<open>sec.L\<close> is zero numpy's quotient is \<^verbatim>\<open>inf\<close> or \<^verbatim>\<open>nan\<close>; the reals
  have neither, and the model's value there carries no meaning.\<close>

definition collect_section ::
  "(vec \<Rightarrow> vec \<Rightarrow> vec \<Rightarrow> vec) \<Rightarrow> geometry \<Rightarrow> nrn_section \<Rightarrow> error + geometry" where
  "collect_section interp g sec =
     (if nseg sec = 0 then Inl ZeroDivisionError
      else
        (let gsen2 = 1 / 2 / real (nseg sec)
         in if 0 < length (pt3d sec)
            then
              (let L = map (\<lambda>(l, x, y, z). l / sec_L sec) (pt3d sec);
                   x = map (\<lambda>(l, x, y, z). x) (pt3d sec);
                   y = map (\<lambda>(l, x, y, z). y) (pt3d sec);
                   z = map (\<lambda>(l, x, y, z). z) (pt3d sec);
                   a = counter g;
                   b = counter g + nseg sec
               in bind (store_from 0 (map seg_x (segments sec)) (replicate (nseg sec) 0))
                    (\<lambda>segx.
                  let segx0 = map (\<lambda>s. round6 (s - gsen2)) segx;
                      segx1 = map (\<lambda>s. round6 (s + gsen2)) segx
                  in bind (set_slice (xstartvec g) a b (interp segx0 L x)) (\<lambda>xs.
                     bind (set_slice (xendvec g) a b (interp segx1 L x)) (\<lambda>xe.
                     bind (set_slice (ystartvec g) a b (interp segx0 L y)) (\<lambda>ys.
                     bind (set_slice (yendvec g) a b (interp segx1 L y)) (\<lambda>ye.
                     bind (set_slice (zstartvec g) a b (interp segx0 L z)) (\<lambda>zs.
                     bind (set_slice (zendvec g) a b (interp segx1 L z)) (\<lambda>ze.
                     fill_segments sec (segments sec)
                       (g\<lparr>xstartvec := xs, xendvec := xe, ystartvec := ys,
                          yendvec := ye, zstartvec := zs, zendvec := ze\<rparr>)))))))))
            else Inr g))"

text \<open>Line 311: \<^verbatim>\<open>for sec in cell.allseclist\<close>.\<close>

fun collect_sections ::
  "(vec \<Rightarrow> vec \<Rightarrow> vec \<Rightarrow> vec) \<Rightarrow> geometry \<Rightarrow> nrn_section list \<Rightarrow> error + geometry" where
  "collect_sections interp g [] = Inr g"
| "collect_sections interp g (sec # rest) =
     (case collect_section interp g sec of
        Inl e \<Rightarrow> Inl e
      | Inr g' \<Rightarrow> collect_sections interp g' rest)"

text \<open>\<^verbatim>\<open>_collect_geometry_neuron\<close>: the cell with its nine geometry attributes set.\<close>

definition collect_geometry_neuron ::
  "(vec \<Rightarrow> vec \<Rightarrow> vec \<Rightarrow> vec) \<Rightarrow> cell \<Rightarrow> error + cell" where
  "collect_geometry_neuron interp c =
     (let zeros = replicate (totnsegs c) 0
      in bind (collect_sections interp
                 \<lparr>counter = 0, areavec = zeros, diamvec = zeros, lengthvec = zeros,
                  xstartvec = zeros, xendvec = zeros, ystartvec = zeros, yendvec = zeros,
                  zstartvec = zeros, zendvec = zeros\<rparr>
                 (allseclist c)) (\<lambda>g.
         Inr (c\<lparr>xstart := xstartvec g, ystart := ystartvec g, zstart := zstartvec g,
                xend := xendvec g, yend := yendvec g, zend := zendvec g,
                area := areavec g, diam := diamvec g, seglength := lengthvec g\<rparr>)))"

subsection \<open>Concrete collaborators and objects\<close>

text \<open>\<^verbatim>\<open>np.dot\<close> of two 2-D arrays.\<close>

definition np_matmul :: "array2 \<Rightarrow> array2 \<Rightarrow> error + array2" where
  "np_matmul A B =
     (if ncols A = nrows B
      then Inr (Array2 (ncols B)
             (map (\<lambda>r. map (\<lambda>j. sum_list (map2 (*) r (map (\<lambda>b. b ! j) (rows B))))
                           [0..<ncols B])
                  (rows A)))
      else Inl ValueError)"

text \<open>An electrode that carries its forward model as a matrix.\<close>

record lin_electrode = electrode +
  mapping :: array2

text \<open>Modelled from the spec: the electrode collaborator's \<^verbatim>\<open>calc_lfp(cell)\<close> is not
  part of the files under \<^verbatim>\<open>src/\<close>. Following the data model (potential = Matrix
  \<open>\<cdot>\<close> current) it stores, as \<^verbatim>\<open>LFP\<close>, the product of the electrode's matrix with the
  cell's \<^verbatim>\<open>imem\<close>.\<close>

definition calc_lfp_linear :: "cell \<Rightarrow> lin_electrode \<Rightarrow> error + lin_electrode" where
  "calc_lfp_linear c el =
     (case imem c of
        None \<Rightarrow> Inl AttributeError
      | Some I \<Rightarrow> bind (np_matmul (mapping el) I) (\<lambda>P. Inr (el\<lparr>LFP := Some P\<rparr>)))"

text \<open>An engine with a fixed step: \<^verbatim>\<open>fadvance\<close> adds \<^verbatim>\<open>dt\<close> to \<^verbatim>\<open>t\<close>; two sections
  of one segment each, with current densities \<open>t + 1\<close> and \<open>2\<close>.\<close>

definition fixed_step_engine :: "unit engine" where
  "fixed_step_engine =
     \<lparr>finitialize = (\<lambda>v h. Inr h), re_init = Inr, fcurrent = Inr, frecord_init = Inr,
      loadspikes = Inr,
      fadvance = (\<lambda>h. Inr (h\<lparr>h_t := h_t h + h_dt h\<rparr>)),
      i_membrane = (\<lambda>h. [[h_t h + 1], [2]])\<rparr>"

text \<open>The same engine reporting three segments.\<close>

definition three_segment_engine :: "unit engine" where
  "three_segment_engine = fixed_step_engine\<lparr>i_membrane := (\<lambda>h. [[h_t h + 1], [2, 3]])\<rparr>"

definition neuron0 :: "unit neuron" where
  "neuron0 = \<lparr>h_dt = 0, h_t = 0, cvode_active = False, cvode_atol = 0, solver = ()\<rparr>"

definition env0 :: env where
  "env0 =
     \<lparr>h5py_available = True, junk_buf = (\<lambda>i. 70), junk = (\<lambda>j i k. 70),
      junk_file = (\<lambda>j i k. 90), can_create = (\<lambda>fn. True)\<rparr>"

text \<open>A cell of two segments, simulated from 0 ms to 2 ms in steps of 1 ms.\<close>

definition cell0 :: cell where
  "cell0 =
     \<lparr>verbose = False, totnsegs = 2, timeres_NEURON = 1, timeres_python = 1,
      tstartms = 0, tstopms = 2, v_init = - 65, allseclist = [],
      xstart = [], ystart = [], zstart = [], xend = [], yend = [], zend = [],
      area = [100, 200], diam = [], seglength = [],
      tvec = Some [], imem = None, dotprodresults = None\<rparr>"

definition electrode0 :: lin_electrode where
  "electrode0 =
     \<lparr>LFP = None, CellLFP = None, perCellLFP = False, electrodecoeff = None,
      mapping = Array2 2 [[1, 1]]\<rparr>"

text \<open>\<^verbatim>\<open>np.interp\<close> for increasing sample points: linear between neighbouring points,
  constant outside them.\<close>

fun interp1 :: "real \<Rightarrow> (real \<times> real) list \<Rightarrow> real" where
  "interp1 x [] = 0"
| "interp1 x [(a, fa)] = fa"
| "interp1 x ((a, fa) # (b, fb) # rest) =
     (if x \<le> a then fa
      else if x < b then fa + (fb - fa) * (x - a) / (b - a)
      else interp1 x ((b, fb) # rest))"

definition np_interp :: "vec \<Rightarrow> vec \<Rightarrow> vec \<Rightarrow> vec" where
  "np_interp xs xp fp = map (\<lambda>x. interp1 x (zip xp fp)) xs"

text \<open>A section of one segment without 3-D samples, and one with two samples.\<close>

definition untraced_section :: nrn_section where
  "untraced_section =
     \<lparr>pt3d = [], nseg = 1, sec_L = 10,
      segments = [\<lparr>seg_x = 1 / 2, seg_diam = 1, seg_area = 3\<rparr>]\<rparr>"

definition traced_section :: nrn_section where
  "traced_section =
     \<lparr>pt3d = [(0, 0, 0, 0), (10, 10, 0, 0)], nseg = 1, sec_L = 10,
      segments = [\<lparr>seg_x = 1 / 2, seg_diam = 2, seg_area = 5\<rparr>]\<rparr>"

text \<open>The arrays of the extractor for two segments, before the first section.\<close>

definition geometry0 :: geometry where
  "geometry0 =
     \<lparr>counter = 0, areavec = [0, 0], diamvec = [0, 0], lengthvec = [0, 0],
      xstartvec = [0, 0], xendvec = [0, 0], ystartvec = [0, 0], yendvec = [0, 0],
      zstartvec = [0, 0], zendvec = [0, 0]\<rparr>"

text \<open>The variables of the loop before its first iteration, for \<open>cell0\<close> and one
  coefficient matrix with one row.\<close>

definition loop_state0 :: "unit loop_state" where
  "loop_state0 =
     \<lparr>hoc = neuron0\<lparr>h_dt := 1\<rparr>, imem_buf = [70, 70], tstep = 0,
      electrodesLFP = [Array2 3 [[70, 70, 70]]], el_LFP_file = None\<rparr>"





subsection \<open>Comparing the container with the arrays in memory\<close>

text \<open>Two arrays agree on their first \<open>n\<close> columns: both are well formed and have at
  least \<open>n\<close> columns, they have the same number of rows, and every row of one starts
  with the same \<open>n\<close> entries as the row of the other. They need not have the same
  number of columns.\<close>

definition agree :: "nat \<Rightarrow> array2 \<Rightarrow> array2 \<Rightarrow> bool" where
  "agree n A B =
     (wf_array A \<and> wf_array B \<and> n \<le> ncols A \<and> n \<le> ncols B
      \<and> length (rows A) = length (rows B)
      \<and> map (take n) (rows A) = map (take n) (rows B))"

text \<open>The datasets of a container match the list \<^verbatim>\<open>electrodesLFP\<close> on the first \<open>n\<close>
  columns: dataset \<open>j\<close> exists and agrees with the \<open>j\<close>-th array.\<close>

definition file_matches :: "nat \<Rightarrow> array2 list \<Rightarrow> (nat \<rightharpoonup> array2) \<Rightarrow> bool" where
  "file_matches n lfps ds =
     list_all (\<lambda>j. case ds j of None \<Rightarrow> False | Some B \<Rightarrow> agree n (lfps ! j) B)
       [0..<length lfps]"

text \<open>The loop variables hold \<open>N\<close> arrays and a container that matches them on the first
  \<open>n\<close> columns.\<close>

definition mirrored :: "nat \<Rightarrow> nat \<Rightarrow> 's loop_state \<Rightarrow> bool" where
  "mirrored N n st =
     (length (electrodesLFP st) = N \<and>
      (case el_LFP_file st of
         None \<Rightarrow> False
       | Some f \<Rightarrow> file_matches n (electrodesLFP st) (datasets f)))"

text \<open>Two arrays of two runs, allocated with the contents \<open>gA\<close> and \<open>gB\<close>: they have
  the same shape, and every entry is the same in both, unless it still is in both what
  the allocator left there.\<close>

definition same_or_unwritten ::
  "(nat \<Rightarrow> nat \<Rightarrow> real) \<Rightarrow> (nat \<Rightarrow> nat \<Rightarrow> real) \<Rightarrow> array2 \<Rightarrow> array2 \<Rightarrow> bool" where
  "same_or_unwritten gA gB A B =
     (ncols A = ncols B \<and> length (rows A) = length (rows B) \<and>
      list_all (\<lambda>i. length (rows A ! i) = ncols A \<and> length (rows B ! i) = ncols A \<and>
                  list_all (\<lambda>k. rows A ! i ! k = rows B ! i ! k
                                \<or> rows A ! i ! k = gA i k \<and> rows B ! i ! k = gB i k)
                    [0..<ncols A])
        [0..<length (rows A)])"

text \<open>The same for the lists \<^verbatim>\<open>electrodesLFP\<close> of two runs, the \<open>j\<close>-th array being
  the \<open>j\<close>-th allocation of its run.\<close>

definition same_results ::
  "(nat \<Rightarrow> nat \<Rightarrow> nat \<Rightarrow> real) \<Rightarrow> (nat \<Rightarrow> nat \<Rightarrow> nat \<Rightarrow> real) \<Rightarrow>
   array2 list \<Rightarrow> array2 list \<Rightarrow> bool" where
  "same_results gA gB lfpsA lfpsB =
     (length lfpsA = length lfpsB \<and>
      list_all (\<lambda>j. same_or_unwritten (gA j) (gB j) (lfpsA ! j) (lfpsB ! j))
        [0..<length lfpsA])"

text \<open>Writing the vector \<open>w\<close>, one entry per row, into column \<open>t\<close>; and a vector
  broadcast to \<open>n\<close> entries.\<close>

definition put_column :: "nat \<Rightarrow> vec \<Rightarrow> array2 \<Rightarrow> array2" where
  "put_column t w A = Array2 (ncols A) (map2 (\<lambda>r x. r[t := x]) (rows A) w)"

definition broadcast :: "nat \<Rightarrow> vec \<Rightarrow> vec" where
  "broadcast n v = (if length v = n then v else replicate n (hd v))"

text \<open>The variables of the loop for a run of \<open>cell0\<close> with the coefficient matrix
  \<open>[[1, 1]]\<close> and both output paths: before the first iteration, after the loop, and
  after the final step.\<close>

definition file_state0 :: "unit loop_state" where
  "file_state0 =
     \<lparr>hoc = neuron0\<lparr>h_dt := 1\<rparr>, imem_buf = [70, 70], tstep = 0,
      electrodesLFP = [Array2 3 [[70, 70, 70]]],
      el_LFP_file = Some \<lparr>fname = ''out.h5'', datasets = [0 \<mapsto> Array2 3 [[90, 90, 90]]],
                           is_open = True\<rparr>\<rparr>"

definition file_state1 :: "unit loop_state" where
  "file_state1 =
     \<lparr>hoc = neuron0\<lparr>h_dt := 1, h_t := 2\<rparr>, imem_buf = [2, 4], tstep = 2,
      electrodesLFP = [Array2 3 [[5, 6, 70]]],
      el_LFP_file = Some \<lparr>fname = ''out.h5'', datasets = [0 \<mapsto> Array2 3 [[5, 6, 90]]],
                           is_open = True\<rparr>\<rparr>"

definition file_state2 :: "unit loop_state" where
  "file_state2 =
     \<lparr>hoc = neuron0\<lparr>h_dt := 1, h_t := 2\<rparr>, imem_buf = [3, 4], tstep = 2,
      electrodesLFP = [Array2 3 [[5, 6, 7]]],
      el_LFP_file = Some \<lparr>fname = ''out.h5'', datasets = [0 \<mapsto> Array2 3 [[5, 6, 7]]],
                           is_open = True\<rparr>\<rparr>"






section \<open>Properties\<close>

lemmas array_defs = np_dot_def set_column_def np_imul_def np_iadd_def np_empty2_def
  np_empty1_def np_eye_def np_arange_def nrows_def py_int_def np_matmul_def bind_def

lemmas float_defs = float_div_def float_add_def round_double_def ulp_def rint_def Let_def

text \<open>The float operations of the example runs are exact.\<close>

lemma float_values:
  "float_div 2 1 = 2" "float_add 2 1 = 3" "float_div 0 1 = 0" "float_add 0 1 = 1"
  by (simp_all add: float_defs numeral_nat)

lemmas run_defs = run_simulation_with_electrode_def prepare_def finish_def final_step_def
  finalize_def merge_electrode_def import_h5py_def probe_phase_def probe_electrode_def
  probe_locals0_def dotprodcoeffs_list_def initialize_def with_electrode_integrator_def
  interval_def open_file_def split_last_def scaled_area_def sample_imem_def
  sample_and_deposit_def loop_body_def

lemmas example_defs = calc_lfp_linear_def fixed_step_engine_def three_segment_engine_def
  neuron0_def env0_def cell0_def electrode0_def float_values

lemmas geometry_defs = collect_geometry_neuron_def collect_section_def set_slice_def
  round6_def rint_def np_interp_def untraced_section_def traced_section_def

subsection \<open>C1: the integrator follows the step size, not the flag\<close>

lemma with_electrode_integrator_flag_irrelevant:
  "with_electrode_integrator c True atol h = with_electrode_integrator c False atol h"
  by (simp add: with_electrode_integrator_def)

text \<open>
  C1 asks that adaptive integration be enabled exactly when \<^verbatim>\<open>variable_dt\<close> is set. With
  \<^verbatim>\<open>variable_dt = True\<close> and a step of 0.1 ms, \<^verbatim>\<open>_run_simulation_with_electrode\<close>
  leaves the adaptive integrator off, while \<^verbatim>\<open>_run_simulation\<close> turns it on for the
  same arguments; with \<^verbatim>\<open>variable_dt = False\<close> and a step of 1e-9 ms it turns the
  adaptive integrator on.
\<close>

theorem with_electrode_ignores_variable_dt:
  "cvode_active (with_electrode_integrator (cell0\<lparr>timeres_NEURON := 1 / 10\<rparr>)
                   True (1 / 1000) neuron0) = False
   \<and> cvode_active (run_simulation_integrator (cell0\<lparr>timeres_NEURON := 1 / 10\<rparr>)
                   True (1 / 1000) neuron0) = True
   \<and> cvode_active (with_electrode_integrator (cell0\<lparr>timeres_NEURON := 1 / 10 ^ 9\<rparr>)
                   False (1 / 1000) neuron0) = True"
  by (simp add: with_electrode_integrator_def run_simulation_integrator_def cell0_def
        neuron0_def)

subsection \<open>C2: a section without 3-D samples\<close>

lemma collect_sections_append:
  "collect_sections interp g (pre @ post) =
     (case collect_sections interp g pre of
        Inl e \<Rightarrow> Inl e
      | Inr g' \<Rightarrow> collect_sections interp g' post)"
  by (induction pre arbitrary: g) (auto split: sum.splits)

text \<open>
  C2 as stated (a section with no 3-D sample but a nonzero segment count makes the
  extractor raise) fails: for a cell of two segments whose first section has no 3-D
  sample, the extractor returns. The segment of the second section is written at index
  0 and index 1 keeps its zeros.
\<close>

theorem untraced_section_returns:
  "collect_geometry_neuron np_interp
     (cell0\<lparr>allseclist := [untraced_section, traced_section]\<rparr>)
   = Inr (cell0\<lparr>allseclist := [untraced_section, traced_section],
            xstart := [0, 0], ystart := [0, 0], zstart := [0, 0],
            xend := [10, 0], yend := [0, 0], zend := [0, 0],
            area := [5, 0], diam := [2, 0], seglength := [10, 0]\<rparr>)"
  by (simp add: geometry_defs bind_def cell0_def Let_def numeral_2_eq_2)

text \<open>
  C2, amended: a section with no 3-D sample and a nonzero segment count raises nothing;
  the extractor skips it, leaving the arrays and the counter as they are, so that the
  result is the one for the section list without that section.
\<close>

theorem untraced_section_skipped:
  "pt3d sec = [] \<Longrightarrow> nseg sec \<noteq> 0 \<Longrightarrow>
   collect_section interp g sec = Inr g \<and>
   collect_sections interp g (pre @ sec # post) = collect_sections interp g (pre @ post)"
  by (simp add: collect_sections_append collect_section_def split: sum.splits)

text \<open>C2, amended, at the section \<open>untraced_section\<close> between two traced sections.\<close>

theorem untraced_section_skipped_witness:
  "collect_section np_interp geometry0 untraced_section = Inr geometry0 \<and>
   collect_sections np_interp geometry0
       ([traced_section] @ untraced_section # [traced_section])
     = collect_sections np_interp geometry0 ([traced_section] @ [traced_section])"
  using untraced_section_skipped
          [of untraced_section np_interp geometry0 "[traced_section]" "[traced_section]"]
  by (simp add: untraced_section_def)

subsection \<open>C3: the probe and the electrodes' stored results\<close>

text \<open>The flags survive from one electrode to the next: whenever the probe of two
  electrodes completes, the first with an \<^verbatim>\<open>LFP\<close> and the second without, the second
  leaves the probe with the first one's \<^verbatim>\<open>LFP\<close>, whatever \<^verbatim>\<open>calc_lfp\<close> computes.\<close>

lemma probe_electrode_locals:
  assumes "probe_electrode calc_lfp c lv el = Inr (lv', el', coeffs)"
  shows "(LFP el = Some A \<longrightarrow> restoreLFP lv' \<and> LFPcopy lv' = Some A \<and> LFP el' = Some A)
       \<and> (LFP el = None \<longrightarrow> restoreLFP lv' = restoreLFP lv \<and> LFPcopy lv' = LFPcopy lv
             \<and> (restoreLFP lv \<longrightarrow> LFP el' = LFPcopy lv)
             \<and> (\<not> restoreLFP lv \<longrightarrow> LFP el' = None))"
  using assms
  by (auto simp: probe_electrode_def bind_def Let_def
           split: option.splits sum.splits if_splits)

lemma probe_next_electrode_gets_LFP:
  assumes "probe_loop calc_lfp c probe_locals0 [e1, e2] = Inr ([e1', e2'], cs)"
    and "LFP e1 = Some A" and "LFP e2 = None"
  shows "LFP e2' = Some A"
proof -
  from assms(1) obtain lv1 k1 lv2 k2
    where a: "probe_electrode calc_lfp c probe_locals0 e1 = Inr (lv1, e1', k1)"
      and b: "probe_electrode calc_lfp c lv1 e2 = Inr (lv2, e2', k2)"
    by (auto split: sum.splits prod.splits)
  from probe_electrode_locals [OF a, of A] assms(2)
  have "restoreLFP lv1" "LFPcopy lv1 = Some A" by simp_all
  with probe_electrode_locals [OF b, of A] assms(3) show ?thesis by simp
qed

text \<open>
  C3 asks that the probe leave every electrode's \<^verbatim>\<open>LFP\<close> and \<^verbatim>\<open>CellLFP\<close> as they
  were. For a list of two electrodes of which only the first has an \<^verbatim>\<open>LFP\<close>, the
  second electrode leaves the probe with the first one's \<^verbatim>\<open>LFP\<close>: the flag
  \<^verbatim>\<open>restoreLFP\<close> is set in the first iteration and never reset.
\<close>

theorem probe_gives_LFP_to_next_electrode:
  "probe_phase calc_lfp_linear cell0
     (Many [electrode0\<lparr>LFP := Some (Array2 3 [[5, 6, 7]])\<rparr>, electrode0]) []
   = Inr (cell0,
          Some [electrode0\<lparr>LFP := Some (Array2 3 [[5, 6, 7]])\<rparr>,
                electrode0\<lparr>LFP := Some (Array2 3 [[5, 6, 7]])\<rparr>],
          [Array2 2 [[1, 1]], Array2 2 [[1, 1]]])"
  by (simp add: array_defs run_defs example_defs numeral_nat upt_rec)

subsection \<open>C4: handing the results to the electrodes\<close>

text \<open>With ad-hoc matrices in front, the index \<open>j\<close> of the last electrodes lies beyond
  the list of electrodes, and the test for an existing \<^verbatim>\<open>CellLFP\<close> raises.\<close>

lemma merge_electrode_index_slip:
  assumes "j - k < length els" and "length els \<le> j" and "perCellLFP (els ! (j - k))"
    and "LFP (els ! (j - k)) = None"
  shows "merge_electrode k j LFPj dpc els = Inl IndexError"
  using assms by (simp add: merge_electrode_def bind_def Let_def)

text \<open>
  C4 asks that, also when ad-hoc matrices were supplied, an electrode with the per-cell
  flag gets its contribution appended to \<^verbatim>\<open>CellLFP\<close>. With one ad-hoc matrix and one
  electrode with \<^verbatim>\<open>perCellLFP\<close> set, the run ends in an \<^verbatim>\<open>IndexError\<close>: the test for
  an existing \<^verbatim>\<open>CellLFP\<close> reads \<^verbatim>\<open>electrodes[1]\<close> of a list of length one.
\<close>

theorem percell_with_adhoc_matrix_raises:
  "run_simulation_with_electrode env0 fixed_step_engine calc_lfp_linear 10 neuron0 cell0
     (Single (electrode0\<lparr>perCellLFP := True\<rparr>)) False (1 / 1000) True False None
     (Single (Array2 2 [[1, 0], [0, 1]]))
   = Some (Inl IndexError)"
  by (simp add: array_defs run_defs example_defs numeral_nat upt_rec)

subsection \<open>C10: the probe and the cell\<close>

text \<open>
  C10: after the probe phase the cell's \<^verbatim>\<open>tvec\<close> is what it was before, and so is its
  \<^verbatim>\<open>imem\<close>: the same array if it had one, absent again if it had none.
\<close>

theorem probe_restores_tvec_imem:
  "probe_phase calc_lfp c electrode dpc = Inr (c', els, dpc') \<Longrightarrow>
   tvec c' = tvec c \<and> imem c' = imem c"
  by (auto simp: probe_phase_def Let_def
           split: arg.splits option.splits sum.splits prod.splits)

text \<open>C10 at a cell without \<^verbatim>\<open>imem\<close>, probed with one electrode.\<close>

theorem probe_restores_tvec_imem_witness:
  "probe_phase calc_lfp_linear cell0 (Single electrode0) []
     = Inr (cell0, Some [electrode0], [Array2 2 [[1, 1]]])
   \<and> tvec cell0 = Some [] \<and> imem cell0 = None"
proof -
  have h: "probe_phase calc_lfp_linear cell0 (Single electrode0) []
     = Inr (cell0, Some [electrode0], [Array2 2 [[1, 1]]])"
    by (simp add: array_defs run_defs example_defs numeral_nat upt_rec)
  from probe_restores_tvec_imem [OF h] h show ?thesis by (simp add: cell0_def)
qed

subsection \<open>C8: the storage backend is missing\<close>

lemma open_file_h5py_flag:
  "open_file (ev\<lparr>h5py_available := b\<rparr>) c file_name dpc = open_file ev c file_name dpc"
  by (simp add: open_file_def Let_def split: option.splits)

lemma prepare_h5py_flag:
  "prepare (ev\<lparr>h5py_available := b\<rparr>) eng calc_lfp h c electrode variable_dt atol to_memory
      to_file file_name dotprodcoeffs
   = prepare ev eng calc_lfp h c electrode variable_dt atol to_memory
      to_file file_name dotprodcoeffs"
  by (cases to_memory; cases to_file; simp add: prepare_def open_file_h5py_flag)

lemma finish_messages:
  "map_sum id (\<lambda>out. out\<lparr>out_messages := w # out_messages out\<rparr>)
     (finish eng to_memory to_file k msgs c electrodes dpc st)
   = finish eng to_memory to_file k (w # msgs) c electrodes dpc st"
  by (simp add: finish_def bind_def Let_def split: sum.splits prod.splits)

text \<open>
  C8: when \<^verbatim>\<open>import h5py\<close> fails, the function prints the warning, sets \<^verbatim>\<open>to_file\<close> to
  false and \<^verbatim>\<open>file_name\<close> to \<^verbatim>\<open>None\<close>, and goes on: whatever \<^verbatim>\<open>to_file\<close> and
  \<^verbatim>\<open>file_name\<close> were, the run is the run without file output, with the warning printed
  first.
\<close>

theorem h5py_missing_runs_in_memory:
  "\<not> h5py_available ev \<Longrightarrow>
   import_h5py ev to_file file_name
     = (False, None, [''h5py not found, LFP to file not possible'']) \<and>
   run_simulation_with_electrode ev eng calc_lfp fuel h c electrode variable_dt atol
       to_memory to_file file_name dotprodcoeffs
   = map_option
       (map_sum id (\<lambda>out. out\<lparr>out_messages :=
                       ''h5py not found, LFP to file not possible'' # out_messages out\<rparr>))
       (run_simulation_with_electrode (ev\<lparr>h5py_available := True\<rparr>) eng calc_lfp fuel h c
          electrode variable_dt atol to_memory False None dotprodcoeffs)"
  by (simp add: run_simulation_with_electrode_def import_h5py_def prepare_h5py_flag
        finish_messages Let_def split: sum.splits prod.splits option.splits)

text \<open>C8 for a run of \<open>cell0\<close> with one electrode that asks for file output.\<close>

theorem h5py_missing_runs_in_memory_witness:
  "import_h5py (env0\<lparr>h5py_available := False\<rparr>) True (Some ''out'')
     = (False, None, [''h5py not found, LFP to file not possible'']) \<and>
   run_simulation_with_electrode (env0\<lparr>h5py_available := False\<rparr>) fixed_step_engine
       calc_lfp_linear 10 neuron0 cell0 (Single electrode0) False (1 / 1000)
       True True (Some ''out'') Absent
   = Some (Inr \<lparr>out_cell = cell0\<lparr>dotprodresults := Some []\<rparr>,
                out_electrodes =
                  Some [electrode0\<lparr>LFP := Some (Array2 3 [[5, 6, 7]]),
                                   electrodecoeff := Some (Array2 2 [[1, 1]])\<rparr>],
                out_file = None,
                out_neuron = neuron0\<lparr>h_dt := 1, h_t := 2\<rparr>,
                out_messages = [''h5py not found, LFP to file not possible'']\<rparr>)"
  using h5py_missing_runs_in_memory
          [where ev = "env0\<lparr>h5py_available := False\<rparr>" and to_file = True
             and file_name = "Some ''out''" and eng = fixed_step_engine
             and calc_lfp = calc_lfp_linear and fuel = 10 and h = neuron0 and c = cell0
             and electrode = "Single electrode0" and variable_dt = False
             and atol = "1 / 1000" and to_memory = True and dotprodcoeffs = Absent]
  by (simp add: array_defs run_defs example_defs numeral_nat upt_rec)

subsection \<open>C5: the sampled current\<close>

lemma store_from_all:
  "i + length vs = length buf \<Longrightarrow> store_from i vs buf = Inr (take i buf @ vs)"
proof (induction vs arbitrary: i buf)
  case Nil
  then show ?case by simp
next
  case (Cons v vs)
  then have "i < length buf" by simp
  moreover have "Suc i + length vs = length (buf[i := v])" using Cons.prems by simp
  ultimately show ?case
    using Cons.IH [of "Suc i" "buf[i := v]"] by (simp add: take_Suc_conv_app_nth)
qed

lemma map2_map_right: "map2 f xs (map g ys) = map2 (\<lambda>x y. f x (g y)) xs ys"
  by (auto simp: zip_map2)

lemma sample_imem_aligned:
  assumes "length (concat (i_membrane eng h)) = length buf" and "length (area c) = length buf"
  shows "sample_imem eng h (scaled_area c) buf
         = Inr (map2 (\<lambda>i a. i * (a * (1 / 100))) (concat (i_membrane eng h)) (area c))"
  using assms
  by (simp add: sample_imem_def store_from_all bind_def np_imul_def scaled_area_def
        map2_map_right)

text \<open>
  C5: when the engine lists as many segments as the cell has (\<^verbatim>\<open>totnsegs\<close>, the length of
  \<^verbatim>\<open>cell.area\<close> and of the buffer), the vector sampled at a step, which is the vector
  then passed to the deposits, holds for every segment, in iteration order, its membrane
  current density times its area times 1e-2.
\<close>

theorem sampled_current_is_density_times_area:
  assumes "length (concat (i_membrane eng (hoc st))) = totnsegs c"
    and "length (area c) = totnsegs c"
    and "length (imem_buf st) = totnsegs c"
  shows "sample_imem eng (hoc st) (scaled_area c) (imem_buf st)
           = Inr (map2 (\<lambda>i a. i * (a * (1 / 100)))
                    (concat (i_membrane eng (hoc st))) (area c))
     \<and> imem_buf (fst (sample_and_deposit eng to_memory to_file dpc (scaled_area c) st))
           = map2 (\<lambda>i a. i * (a * (1 / 100))) (concat (i_membrane eng (hoc st))) (area c)"
proof -
  have s: "sample_imem eng (hoc st) (scaled_area c) (imem_buf st)
           = Inr (map2 (\<lambda>i a. i * (a * (1 / 100)))
                    (concat (i_membrane eng (hoc st))) (area c))"
    using assms by (simp add: sample_imem_aligned)
  then show ?thesis
    by (simp add: sample_and_deposit_def Let_def split: prod.splits option.splits)
qed

text \<open>C5 for \<open>cell0\<close> with areas 100 and 200 and current densities 1 and 2.\<close>

theorem sampled_current_is_density_times_area_witness:
  "sample_imem fixed_step_engine (hoc loop_state0) (scaled_area cell0) (imem_buf loop_state0)
     = Inr [1, 4]
   \<and> imem_buf (fst (sample_and_deposit fixed_step_engine True False [Array2 2 [[1, 1]]]
                      (scaled_area cell0) loop_state0))
     = [1, 4]"
  using sampled_current_is_density_times_area
          [where eng = fixed_step_engine and st = loop_state0 and c = cell0
             and to_memory = True and to_file = False and dpc = "[Array2 2 [[1, 1]]]"]
  by (simp add: loop_state0_def example_defs)

subsection \<open>C6: the shape of the result containers\<close>



lemma np_empty2_nonneg: "np_empty2 g r n = Inr A \<Longrightarrow> 0 \<le> n"
  by (auto simp: np_empty2_def split: if_splits)



lemma alloc_memory_nonneg:
  assumes "alloc_memory g c j dpc = Inr lfps"
  shows "0 \<le> py_int (float_div (tstopms c) (timeres_NEURON c)) + 1 \<or> dpc = []"
  using assms by (cases dpc) (auto split: sum.splits dest: np_empty2_nonneg)






subsection \<open>C9: exceptions in the loop and in the final step\<close>












end
